theory Spec2Isabelle
  imports Complex_Main "HOL-Library.Sublist" "HOL-Library.AList"
begin

section \<open>Python strings\<close>

text \<open>
  A Python \<open>str\<close> is modelled as a \<open>string\<close>, a list of 8-bit characters read as the
  code points U+0000 to U+00FF. On this range \<open>str.lower\<close> works character by
  character: it moves A-Z and the accented capitals U+00C0 to U+00DE (without the
  multiplication sign U+00D7) 32 places up and leaves every other character alone.
  \<open>str.isspace\<close>, which \<open>str.strip\<close> and the regular expression class \<open>\s\<close> share, holds
  for U+0009 to U+000D, U+001C to U+0020, U+0085 and U+00A0.
\<close>

definition isspace :: "char \<Rightarrow> bool" where
  "isspace c = (let n = (of_char c :: nat) in
       (9 \<le> n \<and> n \<le> 13) \<or> (28 \<le> n \<and> n \<le> 32) \<or> n = 133 \<or> n = 160)"

definition isupper :: "char \<Rightarrow> bool" where
  "isupper c = (let n = (of_char c :: nat) in
       (65 \<le> n \<and> n \<le> 90) \<or> (192 \<le> n \<and> n \<le> 222 \<and> n \<noteq> 215))"

definition lower_char :: "char \<Rightarrow> char" where
  "lower_char c = (if isupper c then char_of ((of_char c :: nat) + 32) else c)"

definition lower :: "string \<Rightarrow> string" where
  "lower s = map lower_char s"

text \<open>\<open>s.startswith(p)\<close> is \<^const>\<open>prefix\<close>; \<open>needle in haystack\<close> scans the haystack from the left.\<close>

fun py_in :: "string \<Rightarrow> string \<Rightarrow> bool" where
  "py_in needle [] = (needle = [])"
| "py_in needle (c # cs) = (prefix needle (c # cs) \<or> py_in needle cs)"

definition lstrip :: "string \<Rightarrow> string" where
  "lstrip s = dropWhile isspace s"

definition rstrip :: "string \<Rightarrow> string" where
  "rstrip s = rev (dropWhile isspace (rev s))"

definition strip :: "string \<Rightarrow> string" where
  "strip s = rstrip (lstrip s)"

section \<open>Score calculator\<close>

text \<open>
  \<open>calculate_meal_score\<close> of \<open>app.py\<close>: six independent \<open>if\<close> statements on the lowered
  text, then the default for a total of zero, which tests the length of the lowered text.
\<close>

definition calculate_meal_score :: "string \<Rightarrow> int" where
  "calculate_meal_score assessment_text =
    (let score = 0;
         text = lower assessment_text;
         score = (if py_in ''healthy'' text \<or> py_in ''good choice'' text
                     \<or> py_in ''well-balanced'' text then score + 5 else score);
         score = (if py_in ''low sugar'' text \<or> py_in ''low fat'' text
                     \<or> py_in ''low sodium'' text then score + 2 else score);
         score = (if py_in ''high fiber'' text \<or> py_in ''good source of protein'' text
                  then score + 3 else score);
         score = (if py_in ''high sugar'' text \<or> py_in ''high fat'' text
                     \<or> py_in ''high sodium'' text \<or> py_in ''unhealthy'' text
                  then score - 4 else score);
         score = (if py_in ''low protein'' text \<or> py_in ''low fiber'' text
                  then score - 1 else score);
         score = (if py_in ''be cautious'' text \<or> py_in ''consider alternatives'' text
                  then score - 2 else score);
         score = (if score = 0 \<and> length text > 10 then 1 else score)
     in score)"

text \<open>
  The keyword table as the specification words it: six phrase groups, each with one
  delta. A group fires on a text when one of its phrases occurs in the lowered text.
\<close>

definition keyword_groups :: "(string list \<times> int) list" where
  "keyword_groups =
    [([''healthy'', ''good choice'', ''well-balanced''], 5),
     ([''low sugar'', ''low fat'', ''low sodium''], 2),
     ([''high fiber'', ''good source of protein''], 3),
     ([''high sugar'', ''high fat'', ''high sodium'', ''unhealthy''], - 4),
     ([''low protein'', ''low fiber''], - 1),
     ([''be cautious'', ''consider alternatives''], - 2)]"

definition group_fires :: "string \<Rightarrow> string list \<times> int \<Rightarrow> bool" where
  "group_fires s g = list_ex (\<lambda>p. py_in p (lower s)) (fst g)"

definition keyword_total :: "string \<Rightarrow> int" where
  "keyword_total s = sum_list (map snd (filter (group_fires s) keyword_groups))"

definition no_keyword :: "string \<Rightarrow> bool" where
  "no_keyword s = list_all (\<lambda>g. \<not> group_fires s g) keyword_groups"

text \<open>Every phrase of the table apart from \<open>healthy\<close> and \<open>high sugar\<close>.\<close>

definition other_phrases :: "string list" where
  "other_phrases =
     filter (\<lambda>p. p \<noteq> ''healthy'' \<and> p \<noteq> ''high sugar'') (concat (map fst keyword_groups))"

section \<open>Nutrition rule engine\<close>

text \<open>
  \<open>apply_rule_engine\<close> of \<open>app.py\<close>. The nutrient estimate is a dictionary from nutrient
  names to numbers; a finite Python \<open>int\<close> or \<open>float\<close> is a real number, and Python
  compares the two kinds exactly. The profile dictionary is a record of its two
  documented keys, each \<open>None\<close> when the key is missing. The function's \<open>print\<close> calls
  write to standard output only and are left out.
\<close>

type_synonym nutrition = "string \<rightharpoonup> real"

record user_profile =
  age :: "int option"
  health_conditions :: "string option"

definition get_num :: "nutrition \<Rightarrow> string \<Rightarrow> real" where
  "get_num d k = (case d k of None \<Rightarrow> 0 | Some v \<Rightarrow> v)"

definition get_str :: "string option \<Rightarrow> string" where
  "get_str v = (case v of None \<Rightarrow> [] | Some s \<Rightarrow> s)"

definition note_sugar :: string where
  "note_sugar = ''High estimated sugar content; may need caution for diabetes management.''"

definition note_sodium :: string where
  "note_sodium = ''High estimated sodium content; consider for hypertension.''"

definition note_fat :: string where
  "note_fat = ''This meal appears relatively high in fat.''"

definition note_fiber :: string where
  "note_fiber = ''Good source of dietary fiber.''"

definition note_protein :: string where
  "note_protein = ''High protein content.''"

definition apply_rule_engine :: "nutrition \<Rightarrow> user_profile \<Rightarrow> string list \<times> int" where
  "apply_rule_engine estimated_nutrition profile =
    (let notes = [];
         score_adjustment = 0;
         conditions = lower (get_str (health_conditions profile));
         estimated_sugar = get_num estimated_nutrition ''sugar'';
         (notes, score_adjustment) =
           (if py_in ''diabetes'' conditions \<and> estimated_sugar > 25
            then (notes @ [note_sugar], score_adjustment - 3)
            else (notes, score_adjustment));
         estimated_sodium = get_num estimated_nutrition ''sodium'';
         (notes, score_adjustment) =
           (if py_in ''hypertension'' conditions \<and> estimated_sodium > 800
            then (notes @ [note_sodium], score_adjustment - 2)
            else (notes, score_adjustment));
         (notes, score_adjustment) =
           (if get_num estimated_nutrition ''fat'' > 35
            then (notes @ [note_fat], score_adjustment - 1)
            else (notes, score_adjustment));
         (notes, score_adjustment) =
           (if get_num estimated_nutrition ''fiber'' > 7
            then (notes @ [note_fiber], score_adjustment + 2)
            else (notes, score_adjustment));
         (notes, score_adjustment) =
           (if get_num estimated_nutrition ''protein'' > 30
            then (notes @ [note_protein], score_adjustment + 1)
            else (notes, score_adjustment))
     in (notes, score_adjustment))"

text \<open>
  The rule table as the specification words it: five rules in a fixed order, each a
  condition on the nutrient estimate and the health conditions, one note and one delta.
  The reference engine collects the notes of the rules that fire and sums their deltas.
\<close>

type_synonym rule = "(nutrition \<Rightarrow> string \<Rightarrow> bool) \<times> string \<times> int"

definition rule_table :: "rule list" where
  "rule_table =
    [(\<lambda>n c. py_in ''diabetes'' (lower c) \<and> get_num n ''sugar'' > 25, note_sugar, - 3),
     (\<lambda>n c. py_in ''hypertension'' (lower c) \<and> get_num n ''sodium'' > 800, note_sodium, - 2),
     (\<lambda>n c. get_num n ''fat'' > 35, note_fat, - 1),
     (\<lambda>n c. get_num n ''fiber'' > 7, note_fiber, 2),
     (\<lambda>n c. get_num n ''protein'' > 30, note_protein, 1)]"

definition rule_fires :: "nutrition \<Rightarrow> string \<Rightarrow> rule \<Rightarrow> bool" where
  "rule_fires n c r = (fst r) n c"

definition rule_engine_reference :: "nutrition \<Rightarrow> string \<Rightarrow> string list \<times> int" where
  "rule_engine_reference n c =
    (let fired = filter (rule_fires n c) rule_table
     in (map (\<lambda>r. fst (snd r)) fired, sum_list (map (\<lambda>r. snd (snd r)) fired)))"

section \<open>Regular expressions of the parsers\<close>

text \<open>
  The patterns of \<open>app.py\<close> are built from literals matched without regard to case,
  \<open>\s*\<close> in front of a character that is no white space, and one group. Such a pattern
  matches at a position in one way at most, so each is a function: \<open>match_ci\<close> matches a
  literal at the start of the text and returns what follows, \<open>skip_space\<close> is the greedy
  \<open>\s*\<close>, and \<open>search_ci\<close> is the leftmost occurrence of a literal, as \<open>re.search\<close> finds it.
\<close>

definition newline :: char where
  "newline = CHR 0x0A"

definition match_ci :: "string \<Rightarrow> string \<Rightarrow> string option" where
  "match_ci lit s =
     (if length lit \<le> length s \<and> lower (take (length lit) s) = lower lit
      then Some (drop (length lit) s) else None)"

definition skip_space :: "string \<Rightarrow> string" where
  "skip_space s = dropWhile isspace s"

fun search_ci :: "string \<Rightarrow> string \<Rightarrow> string option" where
  "search_ci lit [] = match_ci lit []"
| "search_ci lit (c # cs) =
     (case match_ci lit (c # cs) of Some rest \<Rightarrow> Some rest | None \<Rightarrow> search_ci lit cs)"

section \<open>Recipe response parser\<close>

text \<open>
  \<open>parse_multi_recipes\<close> of \<open>app.py\<close>. The pattern
  \<open>---\s*RECIPE START\s*---(.*?)---\s*RECIPE END\s*---\<close> is compiled with \<open>DOTALL\<close> and
  \<open>IGNORECASE\<close>; \<open>findall\<close> returns the group of each match, the matches taken from left
  to right without overlap. The lazy group ends at the first position where the end
  marker matches.
\<close>

definition start_marker :: "string \<Rightarrow> string option" where
  "start_marker s =
     Option.bind (match_ci ''---'' s) (\<lambda>s1.
     Option.bind (match_ci ''RECIPE START'' (skip_space s1)) (\<lambda>s2.
     match_ci ''---'' (skip_space s2)))"

definition end_marker :: "string \<Rightarrow> string option" where
  "end_marker s =
     Option.bind (match_ci ''---'' s) (\<lambda>s1.
     Option.bind (match_ci ''RECIPE END'' (skip_space s1)) (\<lambda>s2.
     match_ci ''---'' (skip_space s2)))"

fun find_end :: "string \<Rightarrow> (string \<times> string) option" where
  "find_end [] = (case end_marker [] of Some rest \<Rightarrow> Some ([], rest) | None \<Rightarrow> None)"
| "find_end (c # cs) =
     (case end_marker (c # cs) of
        Some rest \<Rightarrow> Some ([], rest)
      | None \<Rightarrow> (case find_end cs of
                  Some (body, rest) \<Rightarrow> Some (c # body, rest)
                | None \<Rightarrow> None))"

definition match_block :: "string \<Rightarrow> (string \<times> string) option" where
  "match_block s = Option.bind (start_marker s) find_end"

lemma match_ci_length: "match_ci lit s = Some r \<Longrightarrow> length r \<le> length s"
  by (auto simp: match_ci_def split: if_splits)

lemma match_ci_length_less:
  "match_ci lit s = Some r \<Longrightarrow> lit \<noteq> [] \<Longrightarrow> length r < length s"
  by (cases lit) (auto simp: match_ci_def split: if_splits)

lemma skip_space_length: "length (skip_space s) \<le> length s"
  by (simp add: skip_space_def length_dropWhile_le)

lemma start_marker_length: "start_marker s = Some r \<Longrightarrow> length r < length s"
proof -
  assume "start_marker s = Some r"
  then obtain s1 s2 where a: "match_ci ''---'' s = Some s1"
    and b: "match_ci ''RECIPE START'' (skip_space s1) = Some s2"
    and c: "match_ci ''---'' (skip_space s2) = Some r"
    by (auto simp: start_marker_def split: Option.bind_splits)
  have "length r \<le> length (skip_space s2)" using c by (rule match_ci_length)
  also have "\<dots> \<le> length s2" by (rule skip_space_length)
  also have "\<dots> \<le> length (skip_space s1)" using b by (rule match_ci_length)
  also have "\<dots> \<le> length s1" by (rule skip_space_length)
  also have "\<dots> < length s" using a by (rule match_ci_length_less) simp
  finally show ?thesis .
qed

lemma end_marker_length: "end_marker s = Some r \<Longrightarrow> length r < length s"
proof -
  assume "end_marker s = Some r"
  then obtain s1 s2 where a: "match_ci ''---'' s = Some s1"
    and b: "match_ci ''RECIPE END'' (skip_space s1) = Some s2"
    and c: "match_ci ''---'' (skip_space s2) = Some r"
    by (auto simp: end_marker_def split: Option.bind_splits)
  have "length r \<le> length (skip_space s2)" using c by (rule match_ci_length)
  also have "\<dots> \<le> length s2" by (rule skip_space_length)
  also have "\<dots> \<le> length (skip_space s1)" using b by (rule match_ci_length)
  also have "\<dots> \<le> length s1" by (rule skip_space_length)
  also have "\<dots> < length s" using a by (rule match_ci_length_less) simp
  finally show ?thesis .
qed

lemma find_end_length: "find_end s = Some (body, r) \<Longrightarrow> length r \<le> length s"
proof (induction s arbitrary: body)
  case Nil
  then show ?case by (auto split: option.splits dest: end_marker_length)
next
  case (Cons c cs)
  then show ?case
    by (fastforce split: option.splits prod.splits dest: end_marker_length)
qed

lemma match_block_length: "match_block s = Some (body, r) \<Longrightarrow> length r < length s"
  by (auto simp: match_block_def split: Option.bind_splits
      dest!: start_marker_length find_end_length)

function findall_blocks :: "string \<Rightarrow> string list" where
  "findall_blocks [] = []"
| "findall_blocks (c # cs) =
     (case match_block (c # cs) of
        Some (body, rest) \<Rightarrow> body # findall_blocks rest
      | None \<Rightarrow> findall_blocks cs)"
  by pat_completeness auto
termination
  by (relation "measure length") (auto dest: match_block_length)

text \<open>
  A recipe is a Python dictionary from field names to strings. It is modelled as an
  association list in insertion order; storing under a key that is present replaces the
  value in place, as the dictionary does. \<open>truthy\<close> is the truth value Python gives to
  the result of \<open>dict.get\<close>: false for a missing key and for the empty string.
\<close>

type_synonym recipe = "(string \<times> string) list"

definition dict_get :: "recipe \<Rightarrow> string \<Rightarrow> string option" where
  "dict_get d k = map_of d k"

definition dict_set :: "recipe \<Rightarrow> string \<Rightarrow> string \<Rightarrow> recipe" where
  "dict_set d k v = AList.update k v d"

definition truthy :: "string option \<Rightarrow> bool" where
  "truthy v = (case v of None \<Rightarrow> False | Some s \<Rightarrow> s \<noteq> [])"

fun split_lines :: "string \<Rightarrow> string list" where
  "split_lines [] = [[]]"
| "split_lines (c # cs) =
     (if c = newline then [] # split_lines cs
      else (case split_lines cs of
              l # ls \<Rightarrow> (c # l) # ls
            | [] \<Rightarrow> [[c]]))"

fun join_lines :: "string list \<Rightarrow> string" where
  "join_lines [] = []"
| "join_lines [l] = l"
| "join_lines (l # m # ls) = l @ newline # join_lines (m # ls)"

definition key_map :: "(string \<times> string) list" where
  "key_map =
    [(''meal name'', ''name''),
     (''youtube search terms'', ''youtube_search_terms''),
     (''preparation time'', ''prep_time''),
     (''taste profile'', ''taste''),
     (''ingredients'', ''ingredients''),
     (''instructions'', ''instructions''),
     (''estimated nutrition'', ''nutrition'')]"

text \<open>The inner loop over \<open>key_map.items()\<close> stops at the first label the line starts with.\<close>

definition find_key :: "string \<Rightarrow> (string \<times> string) option" where
  "find_key line = find (\<lambda>(key_text, key_json). prefix (key_text @ '':'') (lower line)) key_map"

record scan_state =
  recipe_data :: recipe
  current_key :: "string option"
  current_value :: "string list"

text \<open>\<open>if current_key: recipe_data[current_key] = "\n".join(current_value).strip()\<close>\<close>

definition flush_field :: "scan_state \<Rightarrow> recipe" where
  "flush_field st =
     (case current_key st of
        None \<Rightarrow> recipe_data st
      | Some k \<Rightarrow> if k = [] then recipe_data st
                  else dict_set (recipe_data st) k (strip (join_lines (current_value st))))"

text \<open>One pass of the loop over the lines of a block.\<close>

definition scan_line :: "string \<Rightarrow> scan_state \<Rightarrow> scan_state" where
  "scan_line raw st =
     (let line = strip raw in
      if line = [] then st
      else (case find_key line of
              Some (key_text, key_json) \<Rightarrow>
                \<lparr>recipe_data = flush_field st,
                 current_key = Some key_json,
                 current_value = [strip (drop (length key_text + 1) line)]\<rparr>
            | None \<Rightarrow>
                if truthy (current_key st)
                then st\<lparr>current_value := current_value st @ [line]\<rparr>
                else st))"

definition parse_fields :: "string \<Rightarrow> recipe" where
  "parse_fields block =
     flush_field (fold scan_line (split_lines (strip block))
        \<lparr>recipe_data = [], current_key = None, current_value = []\<rparr>)"

text \<open>The condition under which a block is kept.\<close>

definition accepted :: "recipe \<Rightarrow> bool" where
  "accepted d =
     (truthy (dict_get d ''name'')
      \<and> (truthy (dict_get d ''ingredients'') \<or> truthy (dict_get d ''instructions'')))"

text \<open>\<open>s.lstrip(chars)\<close>, and the cleaning of the ingredient and instruction lines.\<close>

definition lstrip_chars :: "string \<Rightarrow> string \<Rightarrow> string" where
  "lstrip_chars chars s = dropWhile (\<lambda>c. c \<in> set chars) s"

definition clean_lines :: "string \<Rightarrow> string \<Rightarrow> string" where
  "clean_lines chars s = join_lines (map (\<lambda>l. lstrip_chars chars (strip l)) (split_lines s))"

text \<open>
  \<open>urllib.parse.quote_plus\<close>: letters, digits and \<open>_.-~\<close> stay, a space becomes \<open>+\<close>, every
  other character becomes the percent-escapes of its UTF-8 bytes.
\<close>

definition hex_digit :: "nat \<Rightarrow> char" where
  "hex_digit n = (if n < 10 then char_of (48 + n) else char_of (55 + n))"

definition percent_byte :: "nat \<Rightarrow> string" where
  "percent_byte b = [CHR ''%'', hex_digit (b div 16 mod 16), hex_digit (b mod 16)]"

definition utf8 :: "char \<Rightarrow> nat list" where
  "utf8 c = (let n = (of_char c :: nat) in
             if n < 128 then [n] else [192 + n div 64, 128 + n mod 64])"

definition always_safe :: "char \<Rightarrow> bool" where
  "always_safe c = (let n = (of_char c :: nat) in
     (48 \<le> n \<and> n \<le> 57) \<or> (65 \<le> n \<and> n \<le> 90) \<or> (97 \<le> n \<and> n \<le> 122)
     \<or> c \<in> set ''_.-~'')"

definition quote_char :: "char \<Rightarrow> string" where
  "quote_char c =
     (if always_safe c then [c]
      else if c = CHR '' '' then ''+''
      else concat (map percent_byte (utf8 c)))"

definition quote_plus :: "string \<Rightarrow> string" where
  "quote_plus s = concat (map quote_char s)"

definition post_process :: "recipe \<Rightarrow> recipe" where
  "post_process d =
     (let d = (case dict_get d ''ingredients'' of
                 Some s \<Rightarrow> if s \<noteq> [] then dict_set d ''ingredients'' (clean_lines ''-* '' s) else d
               | None \<Rightarrow> d);
          d = (case dict_get d ''instructions'' of
                 Some s \<Rightarrow> if s \<noteq> []
                           then dict_set d ''instructions'' (clean_lines ''0123456789.* '' s)
                           else d
               | None \<Rightarrow> d);
          search_terms = dict_get d ''youtube_search_terms'';
          d = (case search_terms of
                 Some s \<Rightarrow> if s \<noteq> []
                           then dict_set d ''youtube_search_url''
                                  (''https://www.youtube.com/results?search_query='' @ quote_plus s)
                           else d
               | None \<Rightarrow> d)
      in d)"

text \<open>The loop over the matches: an accepted block appends one record, any other none.\<close>

definition add_block :: "string \<Rightarrow> recipe list \<Rightarrow> recipe list" where
  "add_block block recipes =
     (let d = parse_fields block in
      if accepted d then recipes @ [post_process d] else recipes)"

definition accepted_recipes :: "string \<Rightarrow> recipe list" where
  "accepted_recipes text_response = fold add_block (findall_blocks text_response) []"

definition fallback_name :: string where
  "fallback_name = ''Recipe Details (Parsing Failed)''"

definition fallback_record :: "string \<Rightarrow> recipe" where
  "fallback_record text_response = [(''name'', fallback_name), (''instructions'', text_response)]"

definition parse_multi_recipes :: "string \<Rightarrow> recipe list" where
  "parse_multi_recipes text_response =
     (let recipes = accepted_recipes text_response in
      if recipes = [] \<and> length text_response > 50
      then [fallback_record text_response]
      else recipes)"

section \<open>Checker response parser\<close>

text \<open>
  The three searches of the route \<open>checker\<close> in \<open>app.py\<close>. After a heading, \<open>\s*\<close> takes all
  white space, so that \<open>\n*\<close> finds no line feed left. The group \<open>(.*)\<close> is the rest of
  the line for the meal name (no \<open>DOTALL\<close>) and the rest of the text for the assessment;
  the lazy group of the nutrition ends in front of the first line feed that the
  assessment heading follows, or at the end of the text.
\<close>

definition meal_name_placeholder :: string where
  "meal_name_placeholder = ''Unknown Meal (Parsing Failed)''"

definition nutrition_placeholder :: string where
  "nutrition_placeholder = ''Nutrition info could not be extracted.''"

definition assessment_placeholder :: string where
  "assessment_placeholder = ''Assessment could not be extracted.''"

definition meal_name_heading :: string where
  "meal_name_heading = ''## Meal Name''"

definition nutrition_heading :: string where
  "nutrition_heading = ''## Estimated Nutrition''"

definition assessment_heading :: string where
  "assessment_heading = ''## Healthiness Assessment''"

definition line_rest :: "string \<Rightarrow> string" where
  "line_rest s = takeWhile (\<lambda>c. c \<noteq> newline) s"

fun until_assessment :: "string \<Rightarrow> string" where
  "until_assessment [] = []"
| "until_assessment (c # cs) =
     (if match_ci (newline # assessment_heading) (c # cs) \<noteq> None then []
      else c # until_assessment cs)"

definition meal_name_match :: "string \<Rightarrow> string option" where
  "meal_name_match analysis_result =
     map_option (\<lambda>r. line_rest (skip_space r)) (search_ci meal_name_heading analysis_result)"

definition nutrition_match :: "string \<Rightarrow> string option" where
  "nutrition_match analysis_result =
     map_option (\<lambda>r. until_assessment (skip_space r))
       (search_ci nutrition_heading analysis_result)"

definition assessment_match :: "string \<Rightarrow> string option" where
  "assessment_match analysis_result =
     map_option skip_space (search_ci assessment_heading analysis_result)"

record checker_fields =
  meal_name :: string
  nutrition_text :: string
  assessment_text :: string

definition parse_analysis :: "string \<Rightarrow> checker_fields" where
  "parse_analysis analysis_result =
     \<lparr>meal_name = (case meal_name_match analysis_result of
                     Some g \<Rightarrow> strip g | None \<Rightarrow> meal_name_placeholder),
      nutrition_text = (case nutrition_match analysis_result of
                     Some g \<Rightarrow> strip g | None \<Rightarrow> nutrition_placeholder),
      assessment_text = (case assessment_match analysis_result of
                     Some g \<Rightarrow> strip g | None \<Rightarrow> assessment_placeholder)\<rparr>"

text \<open>
  The first occurrence of a heading, for stating what the searches find: the text is
  \<open>pre @ h @ rest\<close>, where \<open>h\<close> is the heading up to case and the heading occurs nowhere
  further left.
\<close>

definition first_heading :: "string \<Rightarrow> string \<Rightarrow> string \<Rightarrow> bool" where
  "first_heading lit pre h =
     (lower h = lower lit \<and> \<not> py_in (lower lit) (lower (pre @ butlast h)))"

section \<open>Persistence and the checker flow\<close>

text \<open>
  The two tables of \<open>database.py\<close> as a state: the users by id and the checked meals in
  the order of their insertion. Each write either commits and returns \<open>True\<close>, or fails
  with an \<open>sqlite3.Error\<close>, changes nothing and returns \<open>False\<close>; which of the two happens
  is an input of the model (\<open>ok\<close>). An \<open>UPDATE\<close> whose \<open>WHERE\<close> clause selects no row
  commits without a change. Scores are unbounded integers.
\<close>

record user_row =
  username :: string
  password_hash :: string
  user_age :: "int option"
  user_health_conditions :: "string option"
  total_health_score :: int

record checked_meal =
  user_id :: nat
  checked_at :: nat
  logged_meal_name :: string
  estimated_nutrition :: string
  health_assessment :: string
  assigned_score :: int
  image_filename :: string

record database =
  users :: "nat \<rightharpoonup> user_row"
  checked_meals :: "checked_meal list"

definition update_user_score :: "database \<Rightarrow> bool \<Rightarrow> nat \<Rightarrow> int \<Rightarrow> database \<times> bool" where
  "update_user_score d ok uid points_to_add =
     (if ok
      then (d\<lparr>users :=
                (case users d uid of
                   Some u \<Rightarrow> (users d)(uid \<mapsto>
                               u\<lparr>total_health_score := total_health_score u + points_to_add\<rparr>)
                 | None \<Rightarrow> users d)\<rparr>, True)
      else (d, False))"

definition add_checked_meal ::
  "database \<Rightarrow> bool \<Rightarrow> nat \<Rightarrow> string \<Rightarrow> string \<Rightarrow> string \<Rightarrow> int \<Rightarrow> string \<Rightarrow> nat
    \<Rightarrow> database \<times> bool" where
  "add_checked_meal d ok uid name nutrition assessment score filename now =
     (if ok
      then (d\<lparr>checked_meals := checked_meals d @
                [\<lparr>user_id = uid, checked_at = now, logged_meal_name = name,
                  estimated_nutrition = nutrition, health_assessment = assessment,
                  assigned_score = score, image_filename = filename\<rparr>]\<rparr>, True)
      else (d, False))"

text \<open>
  The part of the route \<open>checker\<close> that follows the answer of the vision model: parse the
  answer, score the assessment, insert the meal, then update the user's score. The
  results of the two writes are not looked at. The value returned with the new state is
  \<open>assigned_score\<close>, which the route shows as the score change.
\<close>

definition checker_log ::
  "database \<Rightarrow> bool \<Rightarrow> bool \<Rightarrow> nat \<Rightarrow> string \<Rightarrow> string \<Rightarrow> nat \<Rightarrow> database \<times> int" where
  "checker_log d insert_ok update_ok uid analysis_result filename now =
     (let fields = parse_analysis analysis_result;
          score = calculate_meal_score (assessment_text fields);
          (d, inserted) = add_checked_meal d insert_ok uid (meal_name fields)
                            (nutrition_text fields) (assessment_text fields) score filename now;
          (d, updated) = update_user_score d update_ok uid score
      in (d, score))"

section \<open>Facts about strings\<close>

lemma length_lower: "length (lower s) = length s"
  by (simp add: lower_def)

lemma py_in_iff: "py_in needle hay \<longleftrightarrow> (\<exists>ps ss. hay = ps @ needle @ ss)"
proof (induction hay)
  case Nil
  then show ?case by auto
next
  case (Cons c cs)
  show ?case
  proof
    assume "py_in needle (c # cs)"
    then consider "prefix needle (c # cs)" | "py_in needle cs" by auto
    then show "\<exists>ps ss. c # cs = ps @ needle @ ss"
    proof cases
      case 1
      then obtain ss where "c # cs = needle @ ss" by (auto simp: prefix_def)
      then have "c # cs = [] @ needle @ ss" by simp
      then show ?thesis by blast
    next
      case 2
      with Cons.IH obtain ps ss where "cs = ps @ needle @ ss" by blast
      then have "c # cs = (c # ps) @ needle @ ss" by simp
      then show ?thesis by blast
    qed
  next
    assume "\<exists>ps ss. c # cs = ps @ needle @ ss"
    then obtain ps ss where eq: "c # cs = ps @ needle @ ss" by blast
    show "py_in needle (c # cs)"
    proof (cases ps)
      case Nil
      with eq have "prefix needle (c # cs)" by (simp add: prefix_def)
      then show ?thesis by simp
    next
      case (Cons p ps')
      with eq have "cs = ps' @ needle @ ss" by simp
      with Cons.IH have "py_in needle cs" by blast
      then show ?thesis by simp
    qed
  qed
qed

section \<open>Facts about the score calculator\<close>

lemma sum_filter_if:
  "sum_list (map snd (filter P gs)) = sum_list (map (\<lambda>g. if P g then snd g else (0::int)) gs)"
  by (induction gs) simp_all

lemma add_if: "(if c then x + d else x) = x + (if c then d else (0::int))"
  by simp

lemma sub_if: "(if c then x - d else x) = x + (if c then - d else (0::int))"
  by simp

lemma keyword_total_unfold:
  "keyword_total s =
     (if py_in ''healthy'' (lower s) \<or> py_in ''good choice'' (lower s)
         \<or> py_in ''well-balanced'' (lower s) then 5 else 0)
   + (if py_in ''low sugar'' (lower s) \<or> py_in ''low fat'' (lower s)
         \<or> py_in ''low sodium'' (lower s) then 2 else 0)
   + (if py_in ''high fiber'' (lower s) \<or> py_in ''good source of protein'' (lower s)
      then 3 else 0)
   + (if py_in ''high sugar'' (lower s) \<or> py_in ''high fat'' (lower s)
         \<or> py_in ''high sodium'' (lower s) \<or> py_in ''unhealthy'' (lower s)
      then - 4 else 0)
   + (if py_in ''low protein'' (lower s) \<or> py_in ''low fiber'' (lower s) then - 1 else 0)
   + (if py_in ''be cautious'' (lower s) \<or> py_in ''consider alternatives'' (lower s)
      then - 2 else 0)"
  unfolding keyword_total_def keyword_groups_def sum_filter_if group_fires_def
  by (simp only: list.map sum_list.Cons sum_list.Nil list_ex_Nil_iff list_ex_Cons_iff
        fst_conv snd_conv add_0_right add.assoc simp_thms)

lemma calculate_meal_score_total:
  "calculate_meal_score s =
     (if keyword_total s = 0 \<and> length s > 10 then 1 else keyword_total s)"
  unfolding keyword_total_unfold calculate_meal_score_def Let_def length_lower add_if sub_if
  by (simp only: add_0 add.assoc)



lemma other_phrases_eq:
  "other_phrases =
     [''good choice'', ''well-balanced'', ''low sugar'', ''low fat'', ''low sodium'',
      ''high fiber'', ''good source of protein'', ''high fat'', ''high sodium'', ''unhealthy'',
      ''low protein'', ''low fiber'', ''be cautious'', ''consider alternatives'']"
  by code_simp

section \<open>Facts about the rule engine\<close>

lemma apply_rule_engine_reference:
  "apply_rule_engine n p = rule_engine_reference n (get_str (health_conditions p))"
  by (simp add: apply_rule_engine_def rule_engine_reference_def rule_table_def
      rule_fires_def Let_def)

lemma diabetes_conditions:
  "py_in ''diabetes'' (lower ''type 2 diabetes'')"
  "\<not> py_in ''hypertension'' (lower ''type 2 diabetes'')"
  by code_simp+

lemma empty_conditions:
  "\<not> py_in ''diabetes'' (lower [])"
  "\<not> py_in ''hypertension'' (lower [])"
  by code_simp+

section \<open>Facts about the recipe parser\<close>



section \<open>Facts about the checker parser\<close>

lemma lower_append: "lower (a @ b) = lower a @ lower b"
  by (simp add: lower_def)

lemma match_ci_Some_iff:
  "match_ci lit s = Some r \<longleftrightarrow> (\<exists>h. s = h @ r \<and> length h = length lit \<and> lower h = lower lit)"
proof
  assume "match_ci lit s = Some r"
  then have l: "length lit \<le> length s" and e: "lower (take (length lit) s) = lower lit"
    and r: "r = drop (length lit) s"
    by (auto simp: match_ci_def split: if_splits)
  have "s = take (length lit) s @ r" using r by simp
  moreover have "length (take (length lit) s) = length lit" using l by simp
  ultimately show "\<exists>h. s = h @ r \<and> length h = length lit \<and> lower h = lower lit"
    using e by blast
next
  assume "\<exists>h. s = h @ r \<and> length h = length lit \<and> lower h = lower lit"
  then obtain h where "s = h @ r" "length h = length lit" "lower h = lower lit" by blast
  then show "match_ci lit s = Some r" by (simp add: match_ci_def)
qed

lemma match_ci_py_in:
  assumes "match_ci lit s = Some r"
  shows "py_in (lower lit) (lower s)"
proof -
  from assms obtain h where "s = h @ r" "lower h = lower lit"
    unfolding match_ci_Some_iff by blast
  then have "lower s = [] @ lower lit @ lower r" by (simp add: lower_append)
  then show ?thesis unfolding py_in_iff by blast
qed

lemma py_in_Cons: "py_in needle cs \<Longrightarrow> py_in needle (c # cs)"
  by simp

lemma search_ci_absent:
  "\<not> py_in (lower lit) (lower s) \<Longrightarrow> search_ci lit s = None"
proof (induction s)
  case Nil
  then show ?case using match_ci_py_in [of lit "[]"] by (cases "match_ci lit []") auto
next
  case (Cons c cs)
  have "match_ci lit (c # cs) = None"
    using Cons.prems match_ci_py_in [of lit "c # cs"] by (cases "match_ci lit (c # cs)") auto
  moreover have "\<not> py_in (lower lit) (lower cs)"
    using Cons.prems by (simp add: lower_def)
  ultimately show ?case using Cons.IH by simp
qed

lemma search_ci_first:
  assumes "lower h = lower lit" and "\<not> py_in (lower lit) (lower (pre @ butlast h))"
  shows "search_ci lit (pre @ h @ rest) = Some rest"
  using assms(2)
proof (induction pre)
  case Nil
  have len: "length h = length lit"
    using assms(1) length_lower [of h] length_lower [of lit] by simp
  have m: "match_ci lit (h @ rest) = Some rest"
    unfolding match_ci_Some_iff using assms(1) len by blast
  show ?case
  proof (cases "h @ rest")
    case Nil
    then show ?thesis using m by simp
  next
    case (Cons c cs)
    then show ?thesis using m by simp
  qed
next
  case (Cons p pre)
  have len: "length h = length lit"
    using assms(1) length_lower [of h] length_lower [of lit] by simp
  have none: "match_ci lit (p # pre @ h @ rest) = None"
  proof (rule ccontr)
    assume "match_ci lit (p # pre @ h @ rest) \<noteq> None"
    then obtain r where "match_ci lit (p # pre @ h @ rest) = Some r" by blast
    then have e: "lower (take (length lit) (p # pre @ h @ rest)) = lower lit"
      by (auto simp: match_ci_def split: if_splits)
    have hne: "h \<noteq> [] \<Longrightarrow> h = butlast h @ [last h]" by simp
    have "length lit \<le> length (p # pre @ butlast h)" using len by simp
    then have t: "take (length lit) (p # pre @ h @ rest)
                = take (length lit) (p # pre @ butlast h)"
    proof (cases "h = []")
      case True
      then show ?thesis using len by simp
    next
      case False
      then have "p # pre @ h @ rest = (p # pre @ butlast h) @ (last h # rest)" by simp
      then show ?thesis
        using \<open>length lit \<le> length (p # pre @ butlast h)\<close> by (simp only: take_append) simp
    qed
    have "p # pre @ butlast h
          = take (length lit) (p # pre @ butlast h) @ drop (length lit) (p # pre @ butlast h)"
      by simp
    then have "lower (p # pre @ butlast h)
          = [] @ lower lit @ lower (drop (length lit) (p # pre @ butlast h))"
      using e t by (metis append_Nil lower_append)
    then have "py_in (lower lit) (lower ((p # pre) @ butlast h))"
      unfolding py_in_iff by auto
    then show False using Cons.prems by simp
  qed
  have "\<not> py_in (lower lit) (lower (pre @ butlast h))"
    using Cons.prems by (simp add: lower_def)
  then have "search_ci lit (pre @ h @ rest) = Some rest" by (rule Cons.IH)
  then show ?case using none by simp
qed

lemma py_in_suffix:
  assumes "py_in needle s" shows "py_in needle (p @ s)"
proof -
  from assms obtain ps ss where "s = ps @ needle @ ss" unfolding py_in_iff by blast
  then have "p @ s = (p @ ps) @ needle @ ss" by simp
  then show ?thesis unfolding py_in_iff by blast
qed

lemma py_in_trans:
  assumes "py_in a b" and "py_in b c" shows "py_in a c"
proof -
  from assms obtain p1 s1 p2 s2 where "b = p1 @ a @ s1" "c = p2 @ b @ s2"
    unfolding py_in_iff by blast
  then have "c = (p2 @ p1) @ a @ (s1 @ s2)" by simp
  then show ?thesis unfolding py_in_iff by blast
qed

lemma until_assessment_absent:
  "\<not> py_in (lower assessment_heading) (lower s) \<Longrightarrow> until_assessment s = s"
proof (induction s)
  case Nil
  then show ?case by simp
next
  case (Cons c cs)
  have "match_ci (newline # assessment_heading) (c # cs) = None"
  proof (rule ccontr)
    assume "match_ci (newline # assessment_heading) (c # cs) \<noteq> None"
    then obtain r where "match_ci (newline # assessment_heading) (c # cs) = Some r" by blast
    then have a: "py_in (lower (newline # assessment_heading)) (lower (c # cs))"
      by (rule match_ci_py_in)
    have "lower (newline # assessment_heading) = [lower_char newline] @ lower assessment_heading @ []"
      by (simp add: lower_def)
    then have b: "py_in (lower assessment_heading) (lower (newline # assessment_heading))"
      unfolding py_in_iff by blast
    show False using py_in_trans [OF b a] Cons.prems by simp
  qed
  moreover have "\<not> py_in (lower assessment_heading) (lower cs)"
    using Cons.prems by (simp add: lower_def)
  ultimately show ?case using Cons.IH by simp
qed

lemma skip_space_suffix: "\<exists>p. s = p @ skip_space s"
  unfolding skip_space_def by (metis takeWhile_dropWhile_id)

lemma absent_after:
  assumes "\<not> py_in (lower lit) (lower (pre @ h @ rest))"
  shows "\<not> py_in (lower lit) (lower (skip_space rest))"
proof
  assume a: "py_in (lower lit) (lower (skip_space rest))"
  obtain p where "rest = p @ skip_space rest" using skip_space_suffix by blast
  then have "lower (pre @ h @ rest) = (lower (pre @ h @ p)) @ lower (skip_space rest)"
    by (metis append.assoc lower_append)
  then have "py_in (lower lit) (lower (pre @ h @ rest))"
    using py_in_suffix [OF a] by simp
  then show False using assms by simp
qed

lemma search_first_heading:
  "first_heading lit pre h \<Longrightarrow> search_ci lit (pre @ h @ rest) = Some rest"
  unfolding first_heading_def by (simp add: search_ci_first)


lemma assessment_absent:
  "\<not> py_in (lower assessment_heading) (lower t) \<Longrightarrow>
   assessment_text (parse_analysis t) = assessment_placeholder"
  by (simp add: parse_analysis_def assessment_match_def search_ci_absent)

section \<open>Facts about the checker flow\<close>

lemma placeholder_score: "calculate_meal_score assessment_placeholder = 1"
  by code_simp

lemma placeholder_plain:
  "no_keyword assessment_placeholder" "length assessment_placeholder > 10"
  by code_simp+

lemma checker_log_score:
  "snd (checker_log d i_ok u_ok uid t f now)
     = calculate_meal_score (assessment_text (parse_analysis t))"
  by (simp add: checker_log_def Let_def split: prod.splits)

lemma checker_log_meals:
  "checked_meals (fst (checker_log d True u_ok uid t f now))
     = checked_meals d @
        [\<lparr>user_id = uid, checked_at = now,
          logged_meal_name = meal_name (parse_analysis t),
          estimated_nutrition = nutrition_text (parse_analysis t),
          health_assessment = assessment_text (parse_analysis t),
          assigned_score = calculate_meal_score (assessment_text (parse_analysis t)),
          image_filename = f\<rparr>]"
  by (simp add: checker_log_def Let_def add_checked_meal_def update_user_score_def
      split: prod.splits option.splits)

lemma checker_log_users:
  "users d uid = Some u \<Longrightarrow>
   users (fst (checker_log d i_ok True uid t f now))
     = (users d)(uid \<mapsto> u\<lparr>total_health_score :=
          total_health_score u + calculate_meal_score (assessment_text (parse_analysis t))\<rparr>)"
  by (simp add: checker_log_def Let_def add_checked_meal_def update_user_score_def
      split: prod.splits)

section \<open>Claims about the score calculator\<close>



text \<open>
  C3. The keyword deltas are additive: the score before the default is the sum of the
  deltas of all groups that fire, so the returned score is that sum, or 1 when the sum is
  zero and the text is longer than 10 characters. A string that contains \<open>healthy\<close> and
  \<open>high sugar\<close> and no other phrase of the table has the sum 5 + (-4) and the score 1.
\<close>

theorem score_additive:
  "calculate_meal_score s =
     (if keyword_total s = 0 \<and> length s > 10 then 1 else keyword_total s)
   \<and> (py_in ''healthy'' (lower s) \<and> py_in ''high sugar'' (lower s)
        \<and> list_all (\<lambda>p. \<not> py_in p (lower s)) other_phrases
      \<longrightarrow> keyword_total s = 5 + (- 4) \<and> calculate_meal_score s = 1)"
proof (intro conjI impI)
  show "calculate_meal_score s =
     (if keyword_total s = 0 \<and> length s > 10 then 1 else keyword_total s)"
    by (rule calculate_meal_score_total)
next
  assume "py_in ''healthy'' (lower s) \<and> py_in ''high sugar'' (lower s)
        \<and> list_all (\<lambda>p. \<not> py_in p (lower s)) other_phrases"
  then show t: "keyword_total s = 5 + (- 4)"
    unfolding keyword_total_unfold other_phrases_eq
    by (simp only: list_all_Nil_iff list_all_Cons_iff simp_thms if_True if_False)
  show "calculate_meal_score s = 1"
    unfolding calculate_meal_score_total t by simp
qed

theorem score_additive_witness:
  "py_in ''healthy'' (lower ''Healthy grains but HIGH SUGAR sauce'')
   \<and> py_in ''high sugar'' (lower ''Healthy grains but HIGH SUGAR sauce'')
   \<and> list_all (\<lambda>p. \<not> py_in p (lower ''Healthy grains but HIGH SUGAR sauce'')) other_phrases
   \<and> keyword_total ''Healthy grains but HIGH SUGAR sauce'' = 1
   \<and> calculate_meal_score ''Healthy grains but HIGH SUGAR sauce'' = 1"
proof -
  have a: "py_in ''healthy'' (lower ''Healthy grains but HIGH SUGAR sauce'')
   \<and> py_in ''high sugar'' (lower ''Healthy grains but HIGH SUGAR sauce'')
   \<and> list_all (\<lambda>p. \<not> py_in p (lower ''Healthy grains but HIGH SUGAR sauce'')) other_phrases"
    by code_simp
  show ?thesis
    using a score_additive [of "''Healthy grains but HIGH SUGAR sauce''"] by simp
qed

section \<open>Claims about the rule engine\<close>

text \<open>
  C2. The rule engine equals the reference rule table: it returns the notes of the rules
  that fire, in the order of the table, and the sum of their deltas, with a missing
  nutrient read as 0. With sugar 30 and the conditions \<open>type 2 diabetes\<close> it returns one
  note and -3, with sugar 20 no note and 0, with fiber 8 and protein 35 and empty
  conditions two notes and +3, and with no nutrient at all no note and 0.
\<close>

theorem rule_engine_refines_table:
  "apply_rule_engine n p = rule_engine_reference n (get_str (health_conditions p))
   \<and> length (fst (apply_rule_engine n p))
       = length (filter (rule_fires n (get_str (health_conditions p))) rule_table)
   \<and> apply_rule_engine [''sugar'' \<mapsto> 30]
        \<lparr>age = a, health_conditions = Some ''type 2 diabetes''\<rparr> = ([note_sugar], - 3)
   \<and> apply_rule_engine [''sugar'' \<mapsto> 20]
        \<lparr>age = a, health_conditions = Some ''type 2 diabetes''\<rparr> = ([], 0)
   \<and> apply_rule_engine [''fiber'' \<mapsto> 8, ''protein'' \<mapsto> 35]
        \<lparr>age = a, health_conditions = Some []\<rparr> = ([note_fiber, note_protein], 3)
   \<and> apply_rule_engine Map.empty p = ([], 0)"
proof (intro conjI)
  show "apply_rule_engine n p = rule_engine_reference n (get_str (health_conditions p))"
    by (rule apply_rule_engine_reference)
  show "length (fst (apply_rule_engine n p))
       = length (filter (rule_fires n (get_str (health_conditions p))) rule_table)"
    by (simp add: apply_rule_engine_reference rule_engine_reference_def Let_def)
  show "apply_rule_engine [''sugar'' \<mapsto> 30]
        \<lparr>age = a, health_conditions = Some ''type 2 diabetes''\<rparr> = ([note_sugar], - 3)"
    by (simp add: apply_rule_engine_def get_num_def get_str_def diabetes_conditions)
  show "apply_rule_engine [''sugar'' \<mapsto> 20]
        \<lparr>age = a, health_conditions = Some ''type 2 diabetes''\<rparr> = ([], 0)"
    by (simp add: apply_rule_engine_def get_num_def get_str_def diabetes_conditions)
  show "apply_rule_engine [''fiber'' \<mapsto> 8, ''protein'' \<mapsto> 35]
        \<lparr>age = a, health_conditions = Some []\<rparr> = ([note_fiber, note_protein], 3)"
    by (simp add: apply_rule_engine_def get_num_def get_str_def empty_conditions)
  show "apply_rule_engine Map.empty p = ([], 0)"
    by (simp add: apply_rule_engine_def get_num_def)
qed

text \<open>
  C10. Two inputs that agree on the health conditions and on the nutrients sugar,
  sodium, fat, fiber and protein get the same notes and the same delta: the age of the
  profile and every other nutrient, calories and carbs among them, have no influence.
\<close>

theorem rule_engine_noninterference:
  assumes "health_conditions p1 = health_conditions p2"
    and "\<forall>k \<in> set [''sugar'', ''sodium'', ''fat'', ''fiber'', ''protein'']. n1 k = n2 k"
  shows "apply_rule_engine n1 p1 = apply_rule_engine n2 p2"
proof -
  have "get_num n1 k = get_num n2 k"
    if "k \<in> set [''sugar'', ''sodium'', ''fat'', ''fiber'', ''protein'']" for k
    using assms(2) that by (simp add: get_num_def del: set_simps)
  then have "get_num n1 ''sugar'' = get_num n2 ''sugar''"
    "get_num n1 ''sodium'' = get_num n2 ''sodium''"
    "get_num n1 ''fat'' = get_num n2 ''fat''"
    "get_num n1 ''fiber'' = get_num n2 ''fiber''"
    "get_num n1 ''protein'' = get_num n2 ''protein''"
    by simp_all
  then show ?thesis
    unfolding apply_rule_engine_def assms(1) by (simp only:)
qed

theorem rule_engine_noninterference_witness:
  "apply_rule_engine [''sugar'' \<mapsto> 30, ''calories'' \<mapsto> 550, ''carbs'' \<mapsto> 40]
      \<lparr>age = Some 45, health_conditions = Some ''diabetes''\<rparr>
   = apply_rule_engine [''sugar'' \<mapsto> 30, ''calories'' \<mapsto> 900]
      \<lparr>age = None, health_conditions = Some ''diabetes''\<rparr>"
  by (rule rule_engine_noninterference) simp_all

section \<open>Claims about the recipe parser\<close>



text \<open>
  C4. When no recipe is accepted from the input, the parser returns for an input longer
  than 50 characters exactly one record, with the name \<open>Recipe Details (Parsing Failed)\<close>
  and the raw input as its instructions, and for an input shorter than 50 characters the
  empty list. The parser is a total function on strings: no step of it can raise.
\<close>

theorem fallback_policy:
  assumes "accepted_recipes t = []"
  shows "(length t > 50 \<longrightarrow>
            parse_multi_recipes t
              = [[(''name'', ''Recipe Details (Parsing Failed)''), (''instructions'', t)]])
       \<and> (length t < 50 \<longrightarrow> parse_multi_recipes t = [])"
  using assms
  by (simp add: parse_multi_recipes_def fallback_record_def fallback_name_def)

theorem fallback_policy_witness:
  "accepted_recipes ''Sorry, I could not think of any recipe for these targets today.'' = []
   \<and> parse_multi_recipes ''Sorry, I could not think of any recipe for these targets today.''
       = [[(''name'', ''Recipe Details (Parsing Failed)''),
           (''instructions'',
            ''Sorry, I could not think of any recipe for these targets today.'')]]
   \<and> accepted_recipes
        ''--- RECIPE START --- Meal Name: Tea --- RECIPE END --- and nothing else'' = []
   \<and> parse_multi_recipes
        ''--- RECIPE START --- Meal Name: Tea --- RECIPE END --- and nothing else''
       = [[(''name'', ''Recipe Details (Parsing Failed)''),
           (''instructions'',
            ''--- RECIPE START --- Meal Name: Tea --- RECIPE END --- and nothing else'')]]
   \<and> accepted_recipes ''No recipes.'' = []
   \<and> parse_multi_recipes ''No recipes.'' = []"
proof -
  have a: "accepted_recipes
             ''Sorry, I could not think of any recipe for these targets today.'' = []"
    by code_simp
  have b: "accepted_recipes
             ''--- RECIPE START --- Meal Name: Tea --- RECIPE END --- and nothing else'' = []"
    by code_simp
  have c: "accepted_recipes ''No recipes.'' = []"
    by code_simp
  show ?thesis
    using a b c fallback_policy [OF a] fallback_policy [OF b] fallback_policy [OF c]
    by simp
qed

text \<open>
  C7. For an input longer than 50 characters from which no recipe is accepted, the
  parser returns the one fallback record, whose instructions are the input; parsing
  these instructions again returns the same single fallback record.
\<close>

theorem fallback_round_trip:
  assumes "accepted_recipes t = []" and "length t > 50"
  shows "parse_multi_recipes t = [fallback_record t]
       \<and> dict_get (fallback_record t) ''instructions'' = Some t
       \<and> map_option parse_multi_recipes (dict_get (fallback_record t) ''instructions'')
           = Some [fallback_record t]"
proof -
  have p: "parse_multi_recipes t = [fallback_record t]"
    using assms by (simp add: parse_multi_recipes_def)
  have g: "dict_get (fallback_record t) ''instructions'' = Some t"
    by (simp add: dict_get_def fallback_record_def)
  show ?thesis using p g by simp
qed

theorem fallback_round_trip_witness:
  "parse_multi_recipes ''I am sorry, but no recipe fits these macro-nutrient targets.''
     = [fallback_record ''I am sorry, but no recipe fits these macro-nutrient targets.'']
   \<and> map_option parse_multi_recipes
        (dict_get
           (fallback_record ''I am sorry, but no recipe fits these macro-nutrient targets.'')
           ''instructions'')
     = Some [fallback_record ''I am sorry, but no recipe fits these macro-nutrient targets.'']"
proof -
  have a: "accepted_recipes
             ''I am sorry, but no recipe fits these macro-nutrient targets.'' = []"
    by code_simp
  have l: "length ''I am sorry, but no recipe fits these macro-nutrient targets.'' > 50"
    by simp
  show ?thesis using fallback_round_trip [OF a l] by simp
qed

section \<open>Claims about the checker\<close>

text \<open>
  C5. The checker response parser is a total function. Each of its three searches is
  case-insensitive and takes the first occurrence of its heading: when the heading is
  absent the field is the fixed placeholder, and when it is present the field is
  extracted from what follows its first occurrence. On a text without the assessment
  heading the assessment is the placeholder, while the meal name and the nutrition are
  still extracted from their headings.
\<close>

theorem checker_parser_fields:
  "(\<not> py_in (lower meal_name_heading) (lower t)
      \<longrightarrow> meal_name (parse_analysis t) = ''Unknown Meal (Parsing Failed)'')
   \<and> (\<not> py_in (lower nutrition_heading) (lower t)
      \<longrightarrow> nutrition_text (parse_analysis t) = ''Nutrition info could not be extracted.'')
   \<and> (\<not> py_in (lower assessment_heading) (lower t)
      \<longrightarrow> assessment_text (parse_analysis t) = ''Assessment could not be extracted.'')
   \<and> (first_heading meal_name_heading pre1 h1
      \<longrightarrow> meal_name (parse_analysis (pre1 @ h1 @ rest1))
           = strip (line_rest (skip_space rest1)))
   \<and> (first_heading nutrition_heading pre2 h2
      \<longrightarrow> nutrition_text (parse_analysis (pre2 @ h2 @ rest2))
           = strip (until_assessment (skip_space rest2)))
   \<and> (first_heading assessment_heading pre3 h3
      \<longrightarrow> assessment_text (parse_analysis (pre3 @ h3 @ rest3))
           = strip (skip_space rest3))
   \<and> (first_heading nutrition_heading pre2 h2
        \<and> \<not> py_in (lower assessment_heading) (lower (pre2 @ h2 @ rest2))
      \<longrightarrow> nutrition_text (parse_analysis (pre2 @ h2 @ rest2)) = strip (skip_space rest2)
          \<and> assessment_text (parse_analysis (pre2 @ h2 @ rest2))
              = ''Assessment could not be extracted.'')"
proof (intro conjI impI)
  assume "\<not> py_in (lower meal_name_heading) (lower t)"
  then show "meal_name (parse_analysis t) = ''Unknown Meal (Parsing Failed)''"
    by (simp add: parse_analysis_def meal_name_match_def search_ci_absent
        meal_name_placeholder_def)
next
  assume "\<not> py_in (lower nutrition_heading) (lower t)"
  then show "nutrition_text (parse_analysis t) = ''Nutrition info could not be extracted.''"
    by (simp add: parse_analysis_def nutrition_match_def search_ci_absent
        nutrition_placeholder_def)
next
  assume "\<not> py_in (lower assessment_heading) (lower t)"
  then show "assessment_text (parse_analysis t) = ''Assessment could not be extracted.''"
    by (simp add: parse_analysis_def assessment_match_def search_ci_absent
        assessment_placeholder_def)
next
  assume "first_heading meal_name_heading pre1 h1"
  then show "meal_name (parse_analysis (pre1 @ h1 @ rest1))
           = strip (line_rest (skip_space rest1))"
    by (simp add: parse_analysis_def meal_name_match_def search_first_heading)
next
  assume "first_heading nutrition_heading pre2 h2"
  then show "nutrition_text (parse_analysis (pre2 @ h2 @ rest2))
           = strip (until_assessment (skip_space rest2))"
    by (simp add: parse_analysis_def nutrition_match_def search_first_heading)
next
  assume "first_heading assessment_heading pre3 h3"
  then show "assessment_text (parse_analysis (pre3 @ h3 @ rest3))
           = strip (skip_space rest3)"
    by (simp add: parse_analysis_def assessment_match_def search_first_heading)
next
  assume a: "first_heading nutrition_heading pre2 h2
        \<and> \<not> py_in (lower assessment_heading) (lower (pre2 @ h2 @ rest2))"
  then have "until_assessment (skip_space rest2) = skip_space rest2"
    by (intro until_assessment_absent absent_after [of _ pre2 h2]) simp
  with a show "nutrition_text (parse_analysis (pre2 @ h2 @ rest2)) = strip (skip_space rest2)"
    by (simp add: parse_analysis_def nutrition_match_def search_first_heading)
next
  assume "first_heading nutrition_heading pre2 h2
        \<and> \<not> py_in (lower assessment_heading) (lower (pre2 @ h2 @ rest2))"
  then show "assessment_text (parse_analysis (pre2 @ h2 @ rest2))
              = ''Assessment could not be extracted.''"
    by (simp add: parse_analysis_def assessment_match_def search_ci_absent
        assessment_placeholder_def)
qed

theorem checker_parser_fields_witness:
  "\<not> py_in (lower assessment_heading)
       (lower ''Dish:\<newline>## meal NAME \<newline>Lentil Soup \<newline>## Estimated Nutrition\<newline>Salt: 2 g'')
   \<and> \<not> py_in (lower meal_name_heading) (lower ''## Estimated Nutrition\<newline>Salt: 2 g'')
   \<and> \<not> py_in (lower nutrition_heading) (lower ''Dish:\<newline>## meal NAME \<newline>Lentil Soup'')
   \<and> parse_analysis
        ''Dish:\<newline>## meal NAME \<newline>Lentil Soup \<newline>## Estimated Nutrition\<newline>Salt: 2 g''
      = \<lparr>meal_name = ''Lentil Soup'', nutrition_text = ''Salt: 2 g'',
         assessment_text = ''Assessment could not be extracted.''\<rparr>
   \<and> meal_name (parse_analysis ''## Estimated Nutrition\<newline>Salt: 2 g'')
      = ''Unknown Meal (Parsing Failed)''
   \<and> nutrition_text (parse_analysis ''Dish:\<newline>## meal NAME \<newline>Lentil Soup'')
      = ''Nutrition info could not be extracted.''
   \<and> assessment_text
        (parse_analysis ''## Healthiness Assessment\<newline>Looks healthy.\<newline>## healthiness assessment\<newline>No.'')
      = ''Looks healthy.\<newline>## healthiness assessment\<newline>No.''"
proof -
  have a: "\<not> py_in (lower assessment_heading)
       (lower ''Dish:\<newline>## meal NAME \<newline>Lentil Soup \<newline>## Estimated Nutrition\<newline>Salt: 2 g'')"
    by code_simp
  have b: "\<not> py_in (lower meal_name_heading) (lower ''## Estimated Nutrition\<newline>Salt: 2 g'')"
    by code_simp
  have c: "\<not> py_in (lower nutrition_heading) (lower ''Dish:\<newline>## meal NAME \<newline>Lentil Soup'')"
    by code_simp
  have f1: "first_heading meal_name_heading ''Dish:\<newline>'' ''## meal NAME''"
    by code_simp
  have f2: "first_heading nutrition_heading ''Dish:\<newline>## meal NAME \<newline>Lentil Soup \<newline>''
              ''## Estimated Nutrition''"
    by code_simp
  have f3: "first_heading assessment_heading [] ''## Healthiness Assessment''"
    by code_simp
  have v1: "strip (line_rest (skip_space
              '' \<newline>Lentil Soup \<newline>## Estimated Nutrition\<newline>Salt: 2 g''))
            = ''Lentil Soup''"
    by code_simp
  have v2: "strip (skip_space ''\<newline>Salt: 2 g'') = ''Salt: 2 g''"
    by code_simp
  have v2': "strip (until_assessment (skip_space ''\<newline>Salt: 2 g'')) = ''Salt: 2 g''"
    by code_simp
  have v3: "strip (skip_space ''\<newline>Looks healthy.\<newline>## healthiness assessment\<newline>No.'')
            = ''Looks healthy.\<newline>## healthiness assessment\<newline>No.''"
    by code_simp
  note t1 = checker_parser_fields
    [of "''## Estimated Nutrition\<newline>Salt: 2 g''"
        "''Dish:\<newline>''" "''## meal NAME''"
        "'' \<newline>Lentil Soup \<newline>## Estimated Nutrition\<newline>Salt: 2 g''"
        "''Dish:\<newline>## meal NAME \<newline>Lentil Soup \<newline>''" "''## Estimated Nutrition''"
        "''\<newline>Salt: 2 g''"
        "[]" "''## Healthiness Assessment''"
        "''\<newline>Looks healthy.\<newline>## healthiness assessment\<newline>No.''"]
  note t2 = checker_parser_fields [of "''Dish:\<newline>## meal NAME \<newline>Lentil Soup''"]
  have m: "meal_name (parse_analysis
        ''Dish:\<newline>## meal NAME \<newline>Lentil Soup \<newline>## Estimated Nutrition\<newline>Salt: 2 g'')
        = ''Lentil Soup''"
    using t1 f1 v1 by simp
  have n: "nutrition_text (parse_analysis
        ''Dish:\<newline>## meal NAME \<newline>Lentil Soup \<newline>## Estimated Nutrition\<newline>Salt: 2 g'')
        = ''Salt: 2 g''
     \<and> assessment_text (parse_analysis
        ''Dish:\<newline>## meal NAME \<newline>Lentil Soup \<newline>## Estimated Nutrition\<newline>Salt: 2 g'')
        = ''Assessment could not be extracted.''"
    using t1 f2 a v2 v2' by simp
  have p: "meal_name (parse_analysis ''## Estimated Nutrition\<newline>Salt: 2 g'')
      = ''Unknown Meal (Parsing Failed)''"
    using t1 b by simp
  have q: "nutrition_text (parse_analysis ''Dish:\<newline>## meal NAME \<newline>Lentil Soup'')
      = ''Nutrition info could not be extracted.''"
    using t2 c by simp
  have r: "assessment_text
        (parse_analysis ''## Healthiness Assessment\<newline>Looks healthy.\<newline>## healthiness assessment\<newline>No.'')
      = ''Looks healthy.\<newline>## healthiness assessment\<newline>No.''"
    using t1 f3 v3 by simp
  have eq: "\<And>x a b c. meal_name x = a \<Longrightarrow> nutrition_text x = b \<Longrightarrow> assessment_text x = c
      \<Longrightarrow> x = \<lparr>meal_name = a, nutrition_text = b, assessment_text = c\<rparr>"
    by simp
  show ?thesis
    using a b c p q r eq [OF m conjunct1 [OF n] conjunct2 [OF n]] by simp
qed



text \<open>
  C9. When the assessment heading is absent, the flow scores the placeholder
  \<open>Assessment could not be extracted.\<close>, which holds no keyword phrase and is longer
  than 10 characters: the assigned score is 1, and a successful update raises the user's
  cumulative score by 1.
\<close>

theorem missing_assessment_scores_one:
  assumes "\<not> py_in (lower assessment_heading) (lower t)"
  shows "assessment_text (parse_analysis t) = ''Assessment could not be extracted.''
       \<and> no_keyword ''Assessment could not be extracted.''
       \<and> length ''Assessment could not be extracted.'' > 10
       \<and> snd (checker_log d i_ok u_ok uid t f now) = 1
       \<and> assigned_score (last (checked_meals (fst (checker_log d True u_ok uid t f now)))) = 1
       \<and> (users d uid = Some u \<longrightarrow>
            map_option total_health_score (users (fst (checker_log d i_ok True uid t f now)) uid)
              = Some (total_health_score u + 1))"
proof -
  have a: "assessment_text (parse_analysis t) = assessment_placeholder"
    using assms by (rule assessment_absent)
  have n: "no_keyword ''Assessment could not be extracted.''"
    "length ''Assessment could not be extracted.'' > 10"
    using placeholder_plain by (simp_all add: assessment_placeholder_def)
  have p: "assessment_text (parse_analysis t) = ''Assessment could not be extracted.''"
    using a by (simp add: assessment_placeholder_def)
  have s: "snd (checker_log d i_ok u_ok uid t f now) = 1"
    by (simp add: checker_log_score a placeholder_score)
  have m: "assigned_score (last (checked_meals (fst (checker_log d True u_ok uid t f now)))) = 1"
    by (simp add: checker_log_meals a placeholder_score)
  have w: "users d uid = Some u \<longrightarrow>
            map_option total_health_score (users (fst (checker_log d i_ok True uid t f now)) uid)
              = Some (total_health_score u + 1)"
    by (simp add: checker_log_users a placeholder_score)
  show ?thesis using p n s m w by blast
qed

theorem missing_assessment_scores_one_witness:
  "\<not> py_in (lower assessment_heading) (lower ''## Meal Name\<newline>Salad\<newline>## Assessment\<newline>Healthy!'')
   \<and> snd (checker_log
      \<lparr>users = [3 \<mapsto> \<lparr>username = ''ana'', password_hash = ''x'', user_age = Some 30,
                       user_health_conditions = None, total_health_score = 7\<rparr>],
       checked_meals = []\<rparr>
      True True 3 ''## Meal Name\<newline>Salad\<newline>## Assessment\<newline>Healthy!'' ''salad.png'' 100) = 1
   \<and> map_option total_health_score (users (fst (checker_log
      \<lparr>users = [3 \<mapsto> \<lparr>username = ''ana'', password_hash = ''x'', user_age = Some 30,
                       user_health_conditions = None, total_health_score = 7\<rparr>],
       checked_meals = []\<rparr>
      True True 3 ''## Meal Name\<newline>Salad\<newline>## Assessment\<newline>Healthy!'' ''salad.png'' 100)) 3)
     = Some 8"
proof -
  have a: "\<not> py_in (lower assessment_heading)
      (lower ''## Meal Name\<newline>Salad\<newline>## Assessment\<newline>Healthy!'')"
    by code_simp
  have u: "users \<lparr>users = [3 \<mapsto> \<lparr>username = ''ana'', password_hash = ''x'', user_age = Some 30,
                       user_health_conditions = None, total_health_score = 7\<rparr>],
       checked_meals = []\<rparr> (3::nat)
     = Some \<lparr>username = ''ana'', password_hash = ''x'', user_age = Some 30,
                       user_health_conditions = None, total_health_score = 7\<rparr>"
    by simp
  note th = missing_assessment_scores_one [OF a,
        of "\<lparr>users = [3 \<mapsto> \<lparr>username = ''ana'', password_hash = ''x'', user_age = Some 30,
                       user_health_conditions = None, total_health_score = 7\<rparr>],
            checked_meals = []\<rparr>" True True 3 "''salad.png''" 100
           "\<lparr>username = ''ana'', password_hash = ''x'', user_age = Some 30,
                       user_health_conditions = None, total_health_score = 7\<rparr>"]
  have 1: "snd (checker_log
      \<lparr>users = [3 \<mapsto> \<lparr>username = ''ana'', password_hash = ''x'', user_age = Some 30,
                       user_health_conditions = None, total_health_score = 7\<rparr>],
       checked_meals = []\<rparr>
      True True 3 ''## Meal Name\<newline>Salad\<newline>## Assessment\<newline>Healthy!'' ''salad.png'' 100) = 1"
    using th by blast
  have 2: "map_option total_health_score (users (fst (checker_log
      \<lparr>users = [3 \<mapsto> \<lparr>username = ''ana'', password_hash = ''x'', user_age = Some 30,
                       user_health_conditions = None, total_health_score = 7\<rparr>],
       checked_meals = []\<rparr>
      True True 3 ''## Meal Name\<newline>Salad\<newline>## Assessment\<newline>Healthy!'' ''salad.png'' 100)) 3)
     = Some (total_health_score \<lparr>username = ''ana'', password_hash = ''x'', user_age = Some 30,
                       user_health_conditions = None, total_health_score = 7\<rparr> + 1)"
    using th u by blast
  have 3: "total_health_score \<lparr>username = ''ana'', password_hash = ''x'', user_age = Some 30,
                       user_health_conditions = None, total_health_score = 7\<rparr> + 1 = 8"
    by simp
  show ?thesis
    using a 1 2 unfolding 3 by blast
qed

end
